theory Spec2Isabelle
  imports Main
begin

section \<open>Data model\<close>

text \<open>
  The watcher of \<^verbatim>\<open>main.go\<close> reads Docker events, filters container exits, inspects
  the container, builds a \<^verbatim>\<open>ContainerEvent\<close> and hands it to one of two sinks.
  Go strings are byte strings (\<open>string\<close>); a Go \<^verbatim>\<open>error\<close> is represented by the text
  its \<^verbatim>\<open>Error()\<close> method returns.
\<close>

type_synonym go_error = string

text \<open>\<^verbatim>\<open>events.Message\<close>: the fields the program reads.\<close>

record actor =
  ID :: string
  Attributes :: "string \<rightharpoonup> string"

record message =
  Type :: string
  Action :: string
  From :: string
  Actor :: actor

text \<open>
  \<^verbatim>\<open>types.ContainerJSON\<close>: the program reads \<^verbatim>\<open>Config.Cmd\<close> and \<^verbatim>\<open>Config.Labels\<close> only
  (\<^verbatim>\<open>Config\<close> is a pointer, which the daemon's answer always sets).
  \<^verbatim>\<open>Labels\<close> is a Go map, whose \<^verbatim>\<open>range\<close> order is not defined: the association list
  holds the entries in the order in which \<^verbatim>\<open>range\<close> happens to visit them.
\<close>

record container_config =
  Cmd :: "string list"
  Labels :: "(string \<times> string) list"

record inspect_response =
  Config :: container_config

text \<open>\<^verbatim>\<open>type ContainerEvent struct\<close> (main.go, lines 27 to 32).\<close>

record ContainerEvent =
  Title :: string
  Body :: string
  ContainerID :: string
  Tags :: "string list"

text \<open>\<^verbatim>\<open>statsd.Event\<close>: the fields \<^verbatim>\<open>datadogEvent\<close> sets.\<close>

record statsd_event =
  EventTitle :: string
  EventText :: string
  AggregationKey :: string
  AlertType :: string
  SourceTypeName :: string
  EventTags :: "string list"

text \<open>What \<^verbatim>\<open>json.MarshalIndent\<close> is applied to.\<close>

datatype json_arg = JInspect inspect_response | JMessage message

text \<open>
  The collaborators of the loop, as the program sees them: the variable \<^verbatim>\<open>output\<close> that
  the \<^verbatim>\<open>-output\<close> flag sets (\<open>output\<close> is a keyword of Isabelle, hence \<open>output_flag\<close>),
  the \<^verbatim>\<open>DEBUG\<close> environment variable, the Docker client's \<^verbatim>\<open>ContainerInspect\<close>, the statsd
  client's \<^verbatim>\<open>Event\<close> (\<open>None\<close> is a nil error), and the library functions
  \<^verbatim>\<open>json.MarshalIndent\<close> (value, prefix, indent) and \<^verbatim>\<open>strconv.Quote\<close> (behind \<^verbatim>\<open>%q\<close>).
  Each answers as a function of its arguments.
\<close>

record env =
  output_flag :: string
  DEBUG :: string
  ContainerInspect :: "string \<Rightarrow> go_error + inspect_response"
  Event :: "statsd_event \<Rightarrow> go_error option"
  MarshalIndent :: "json_arg \<Rightarrow> string \<Rightarrow> string \<Rightarrow> go_error + string"
  Quote :: "string \<Rightarrow> string"

text \<open>
  What the process does to the outside: a write to standard output (\<^verbatim>\<open>fmt.Printf\<close>),
  a line of the standard logger (\<^verbatim>\<open>log.Println\<close>, and the message of \<^verbatim>\<open>log.Fatal\<close>),
  a call of \<^verbatim>\<open>ContainerInspect\<close> with a container ID, an event handed to the statsd client.
\<close>

datatype effect =
  Stdout string
  | Log string
  | Inspect string
  | Send statsd_event

text \<open>
  The outcome of one piece of the loop body: its effects in order, the exit status when
  \<^verbatim>\<open>log.Fatal\<close> ended the process (\<^verbatim>\<open>os.Exit(1)\<close>), and the local \<^verbatim>\<open>containerEvent\<close> when
  the iteration built one.
\<close>

record outcome =
  effects :: "effect list"
  exited :: "nat option"
  built :: "ContainerEvent option"

text \<open>What one \<^verbatim>\<open>select\<close> receives: a value of \<^verbatim>\<open>errs\<close> (\<open>None\<close> is a nil error) or of \<^verbatim>\<open>msgs\<close>.\<close>

datatype item = ErrItem "go_error option" | MsgItem message

section \<open>Operations\<close>

definition nl :: string where
  "nl = [CHR 0x0A]"

text \<open>Indexing a Go map: a missing key reads as the zero value, the empty string.\<close>

definition index :: "(string \<rightharpoonup> string) \<Rightarrow> string \<Rightarrow> string" where
  "index m k = (case m k of None \<Rightarrow> [] | Some v \<Rightarrow> v)"

text \<open>\<^verbatim>\<open>strings.Join\<close>.\<close>

fun Join :: "string list \<Rightarrow> string \<Rightarrow> string" where
  "Join [] sep = []"
| "Join [x] sep = x"
| "Join (x # y # ys) sep = x @ sep @ Join (y # ys) sep"

text \<open>\<^verbatim>\<open>log.Fatal(err)\<close>: the logger prints the error, then the process exits with status 1.\<close>

definition Fatal :: "go_error \<Rightarrow> outcome" where
  "Fatal err = \<lparr>effects = [Log err], exited = Some 1, built = None\<rparr>"

text \<open>Running \<open>b\<close> after \<open>a\<close>: nothing of \<open>b\<close> happens once \<open>a\<close> has ended the process.\<close>

definition seq :: "outcome \<Rightarrow> outcome \<Rightarrow> outcome" where
  "seq a b = (case exited a of
     Some c \<Rightarrow> a
   | None \<Rightarrow> \<lparr>effects = effects a @ effects b, exited = exited b,
              built = (case built b of None \<Rightarrow> built a | Some e \<Rightarrow> Some e)\<rparr>)"

text \<open>The filter of main.go, lines 113 to 115.\<close>

definition reportable :: "message \<Rightarrow> bool" where
  "reportable msg =
     (if Type msg = ''container'' \<and> (Action msg = ''die'' \<or> Action msg = ''exec_die'') then
        (let exitCode = index (Attributes (Actor msg)) ''exitCode'' in
         if exitCode \<noteq> ''0'' then True else False)
      else False)"

text \<open>
  The debugging dump of lines 121 to 134: when \<^verbatim>\<open>DEBUG\<close> is not empty, the inspection
  result and then the event are marshalled with \<^verbatim>\<open>json.MarshalIndent(v, "", "  ")\<close> and
  printed by \<^verbatim>\<open>fmt.Printf("\n%s\n%s\n", ...)\<close>; a marshalling error is fatal.
\<close>

definition debug_dump :: "env \<Rightarrow> message \<Rightarrow> inspect_response \<Rightarrow> outcome" where
  "debug_dump e msg inspectResponse =
     (if DEBUG e \<noteq> [] then
        (case MarshalIndent e (JInspect inspectResponse) [] ''  '' of
           Inl err \<Rightarrow> Fatal err
         | Inr inspectJSON \<Rightarrow>
             (case MarshalIndent e (JMessage msg) [] ''  '' of
                Inl err \<Rightarrow> Fatal err
              | Inr msgJSON \<Rightarrow>
                  \<lparr>effects = [Stdout (nl @ inspectJSON @ nl @ msgJSON @ nl)],
                   exited = None, built = None\<rparr>))
      else \<lparr>effects = [], exited = None, built = None\<rparr>)"

text \<open>
  The loop of lines 138 to 140: each label appends \<^verbatim>\<open>fmt.Sprintf("%s=%s", key, value)\<close>
  to the tags.
\<close>

definition append_labels :: "(string \<times> string) list \<Rightarrow> string list \<Rightarrow> string list" where
  "append_labels labels tags = fold (\<lambda>(key, val) acc. acc @ [key @ ''='' @ val]) labels tags"

text \<open>
  Lines 136 to 155: the \<^verbatim>\<open>ContainerEvent\<close> starts as the zero value; then the identifier,
  the tags, the body (five \<^verbatim>\<open>Sprintf\<close> calls, each extending the body so far) and the title
  are set. The title stays empty for an action that is neither die nor exec_die.
\<close>

definition buildContainerEvent :: "message \<Rightarrow> string \<Rightarrow> inspect_response \<Rightarrow> ContainerEvent" where
  "buildContainerEvent msg exitCode inspectResponse =
     (let containerEvent = \<lparr>Title = [], Body = [], ContainerID = [], Tags = []\<rparr>;
          containerEvent = containerEvent\<lparr>ContainerID := ID (Actor msg)\<rparr>;
          containerEvent = containerEvent\<lparr>Tags :=
            append_labels (Labels (Config inspectResponse)) (Tags containerEvent)\<rparr>;
          fromContainer = From msg;
          containerCmd = Join (Cmd (Config inspectResponse)) '' '';
          containerEvent = containerEvent\<lparr>Body :=
            ''Name: '' @ index (Attributes (Actor msg)) ''name'' @ nl\<rparr>;
          containerEvent = containerEvent\<lparr>Body :=
            Body containerEvent @ ''ID: '' @ ID (Actor msg) @ nl\<rparr>;
          containerEvent = containerEvent\<lparr>Body :=
            Body containerEvent @ ''Image: '' @ index (Attributes (Actor msg)) ''image'' @ nl\<rparr>;
          containerEvent = containerEvent\<lparr>Body :=
            Body containerEvent @ ''Cmd: '' @ containerCmd @ nl\<rparr>;
          containerEvent = containerEvent\<lparr>Body :=
            Body containerEvent @ ''Exit Code: '' @ exitCode @ nl\<rparr>
      in if Action msg = ''die'' then
           containerEvent\<lparr>Title := fromContainer @ '' container exited non-zero: '' @ exitCode\<rparr>
         else if Action msg = ''exec_die'' then
           containerEvent\<lparr>Title :=
             fromContainer @ '' container process exited non-zero: '' @ exitCode\<rparr>
         else containerEvent)"

text \<open>\<^verbatim>\<open>statsd.Error\<close>, the alert type of an error event.\<close>

definition statsd_Error :: string where
  "statsd_Error = ''error''"

text \<open>
  \<^verbatim>\<open>datadogEvent\<close> (lines 69 to 81): \<^verbatim>\<open>statsd.NewEvent\<close> with the title and the body, then
  the four assignments, then \<^verbatim>\<open>c.Event\<close>; its error is fatal, its success is logged.
\<close>

definition newEvent :: "ContainerEvent \<Rightarrow> statsd_event" where
  "newEvent ce =
     (let event = \<lparr>EventTitle = Title ce, EventText = Body ce, AggregationKey = [],
                   AlertType = [], SourceTypeName = [], EventTags = []\<rparr>;
          event = event\<lparr>AggregationKey := ContainerID ce\<rparr>;
          event = event\<lparr>AlertType := statsd_Error\<rparr>;
          event = event\<lparr>SourceTypeName := ''DOCKER''\<rparr>;
          event = event\<lparr>EventTags := Tags ce\<rparr>
      in event)"

definition datadogEvent :: "env \<Rightarrow> ContainerEvent \<Rightarrow> outcome" where
  "datadogEvent e ce =
     (let event = newEvent ce in
      case Event e event of
        Some err \<Rightarrow> \<lparr>effects = [Send event, Log err], exited = Some 1, built = None\<rparr>
      | None \<Rightarrow> \<lparr>effects = [Send event, Log ''successfully sent event to datadog''],
                 exited = None, built = None\<rparr>)"

text \<open>
  \<^verbatim>\<open>fmt.Printf("\n%q\n", containerEvent)\<close> (line 160): \<^verbatim>\<open>%q\<close> on a struct prints its fields
  in order between braces, separated by spaces, each string quoted; the slice of tags is
  printed between brackets, its quoted elements separated by spaces.
\<close>

definition printf_q :: "env \<Rightarrow> ContainerEvent \<Rightarrow> string" where
  "printf_q e ce =
     nl @ ''{'' @ Quote e (Title ce) @ '' '' @ Quote e (Body ce) @ '' ''
        @ Quote e (ContainerID ce) @ '' ['' @ Join (map (Quote e) (Tags ce)) '' '' @ '']}'' @ nl"

text \<open>The choice of the sink, lines 157 to 161.\<close>

definition dispatch :: "env \<Rightarrow> ContainerEvent \<Rightarrow> outcome" where
  "dispatch e ce =
     (if output_flag e = ''datadog'' then datadogEvent e ce
      else \<lparr>effects = [Stdout (printf_q e ce)], exited = None, built = None\<rparr>)"

text \<open>
  The \<^verbatim>\<open>msgs\<close> case of the \<^verbatim>\<open>select\<close>, lines 113 to 163. An event that does not pass the
  two tests does nothing.
\<close>

definition skip :: outcome where
  "skip = \<lparr>effects = [], exited = None, built = None\<rparr>"

definition handle_msg :: "env \<Rightarrow> message \<Rightarrow> outcome" where
  "handle_msg e msg =
     (if Type msg = ''container'' \<and> (Action msg = ''die'' \<or> Action msg = ''exec_die'') then
        (let exitCode = index (Attributes (Actor msg)) ''exitCode'' in
         if exitCode \<noteq> ''0'' then
           seq \<lparr>effects = [Inspect (ID (Actor msg))], exited = None, built = None\<rparr>
             (case ContainerInspect e (ID (Actor msg)) of
                Inl err \<Rightarrow> Fatal err
              | Inr inspectResponse \<Rightarrow>
                  seq (debug_dump e msg inspectResponse)
                    (let containerEvent = buildContainerEvent msg exitCode inspectResponse in
                     seq \<lparr>effects = [], exited = None, built = Some containerEvent\<rparr>
                       (dispatch e containerEvent)))
         else skip)
      else skip)"

text \<open>
  The \<^verbatim>\<open>errs\<close> case, line 111: \<^verbatim>\<open>fmt.Printf("error: %q", err)\<close> writes the quoted text of
  the error to standard output; a nil error is printed as \<^verbatim>\<open>%!q(<nil>)\<close>.
\<close>

definition printf_error :: "env \<Rightarrow> go_error option \<Rightarrow> string" where
  "printf_error e err =
     ''error: '' @ (case err of None \<Rightarrow> ''%!q(<nil>)'' | Some t \<Rightarrow> Quote e t)"

definition handle_err :: "env \<Rightarrow> go_error option \<Rightarrow> outcome" where
  "handle_err e err = \<lparr>effects = [Stdout (printf_error e err)], exited = None, built = None\<rparr>"

definition step :: "env \<Rightarrow> item \<Rightarrow> outcome" where
  "step e it = (case it of ErrItem err \<Rightarrow> handle_err e err | MsgItem msg \<Rightarrow> handle_msg e msg)"

text \<open>
  The loop of lines 108 to 165 on the values it receives, in the order of their receipt:
  the effects so far and the exit status (\<open>None\<close> while the loop is still selecting). An
  iteration that ends the process ends the run: the values after it are never received.
\<close>

fun watch :: "env \<Rightarrow> item list \<Rightarrow> effect list \<times> nat option" where
  "watch e [] = ([], None)"
| "watch e (it # rest) =
     (let r = step e it in
      case exited r of
        Some c \<Rightarrow> (effects r, Some c)
      | None \<Rightarrow> (effects r @ fst (watch e rest), snd (watch e rest)))"

section \<open>Observations\<close>

text \<open>The events handed to the statsd client, and the texts written to standard output.\<close>

fun sent :: "effect list \<Rightarrow> statsd_event list" where
  "sent [] = []"
| "sent (Send ev # es) = ev # sent es"
| "sent (x # es) = sent es"

fun printed :: "effect list \<Rightarrow> string list" where
  "printed [] = []"
| "printed (Stdout t # es) = t # printed es"
| "printed (x # es) = printed es"

text \<open>A label as a tag: key, equals sign, value.\<close>

definition render :: "string \<times> string \<Rightarrow> string" where
  "render kv = fst kv @ ''='' @ snd kv"

text \<open>The \<^verbatim>\<open>ContainerEvent\<close> of an event and its inspection result, with the exit code read
  from the attributes as line 114 does.\<close>

abbreviation containerEvent_of :: "message \<Rightarrow> inspect_response \<Rightarrow> ContainerEvent" where
  "containerEvent_of msg r \<equiv>
     buildContainerEvent msg (index (Attributes (Actor msg)) ''exitCode'') r"

section \<open>Concrete inputs\<close>

text \<open>The die event and the inspection result of the nginx container named web1.\<close>

definition nginx_die :: message where
  "nginx_die = \<lparr>Type = ''container'', Action = ''die'', From = ''nginx'',
     Actor = \<lparr>ID = ''abc123'',
       Attributes = [''name'' \<mapsto> ''web1'', ''image'' \<mapsto> ''nginx:latest'',
                     ''exitCode'' \<mapsto> ''137'']\<rparr>\<rparr>"

definition nginx_inspect :: inspect_response where
  "nginx_inspect = \<lparr>Config = \<lparr>Cmd = [''nginx'', ''-g'', ''daemon off;''],
                                Labels = [(''env'', ''prod'')]\<rparr>\<rparr>"

text \<open>A die event of a container whose attribute mapping is empty: no exit code at all.\<close>

definition die_without_exit_code :: message where
  "die_without_exit_code = \<lparr>Type = ''container'', Action = ''die'', From = ''nginx'',
     Actor = \<lparr>ID = ''abc123'', Attributes = Map.empty\<rparr>\<rparr>"

text \<open>
  \<^verbatim>\<open>strconv.Quote\<close> on strings of printable ASCII characters and newlines: double quotes
  around the text, a backslash before a double quote and a backslash, \<^verbatim>\<open>\n\<close> for a newline.
\<close>

definition quote_ascii :: "string \<Rightarrow> string" where
  "quote_ascii s = CHR 0x22 # concat (map (\<lambda>c.
       if c = CHR 0x0A then [CHR 0x5C, CHR ''n'']
       else if c = CHR 0x22 then [CHR 0x5C, CHR 0x22]
       else if c = CHR 0x5C then [CHR 0x5C, CHR 0x5C]
       else [c]) s) @ [CHR 0x22]"

text \<open>
  A run with the default flags and no \<^verbatim>\<open>DEBUG\<close>: the daemon knows the container abc123
  only, the statsd client accepts every event.
\<close>

definition nginx_env :: env where
  "nginx_env = \<lparr>output_flag = ''datadog'', DEBUG = [],
     ContainerInspect = (\<lambda>id. if id = ''abc123'' then Inr nginx_inspect
                               else Inl ''No such container''),
     Event = (\<lambda>ev. None),
     MarshalIndent = (\<lambda>v prefix indent. Inr ''{}''),
     Quote = quote_ascii\<rparr>"

section \<open>Properties of the operations\<close>

lemma append_labels_map: "append_labels labels tags = tags @ map render labels"
  unfolding append_labels_def
  by (induction labels arbitrary: tags) (auto simp: render_def)

lemma buildContainerEvent_ContainerID:
  "ContainerID (buildContainerEvent msg exitCode r) = ID (Actor msg)"
  by (simp add: buildContainerEvent_def Let_def)

lemma buildContainerEvent_Tags:
  "Tags (buildContainerEvent msg exitCode r) = map render (Labels (Config r))"
  by (simp add: buildContainerEvent_def Let_def append_labels_map)

lemma buildContainerEvent_Body:
  "Body (buildContainerEvent msg exitCode r) =
     ''Name: '' @ index (Attributes (Actor msg)) ''name'' @ nl
     @ ''ID: '' @ ID (Actor msg) @ nl
     @ ''Image: '' @ index (Attributes (Actor msg)) ''image'' @ nl
     @ ''Cmd: '' @ Join (Cmd (Config r)) '' '' @ nl
     @ ''Exit Code: '' @ exitCode @ nl"
  by (simp add: buildContainerEvent_def Let_def)

lemma buildContainerEvent_Title:
  "Title (buildContainerEvent msg exitCode r) =
     (if Action msg = ''die'' then From msg @ '' container exited non-zero: '' @ exitCode
      else if Action msg = ''exec_die'' then
        From msg @ '' container process exited non-zero: '' @ exitCode
      else [])"
  by (simp add: buildContainerEvent_def Let_def)

lemma built_debug_dump: "built (debug_dump e msg r) = None"
  by (simp add: debug_dump_def Fatal_def split: sum.splits)

lemma built_dispatch: "built (dispatch e ce) = None"
  by (simp add: dispatch_def datadogEvent_def Let_def split: option.splits)

lemma handle_msg_not_reportable: "\<not> reportable msg \<Longrightarrow> handle_msg e msg = skip"
  by (auto simp: reportable_def handle_msg_def Let_def split: if_splits)

lemma handle_msg_inspect_failed:
  assumes "reportable msg" and "ContainerInspect e (ID (Actor msg)) = Inl err"
  shows "handle_msg e msg =
           \<lparr>effects = [Inspect (ID (Actor msg)), Log err], exited = Some 1, built = None\<rparr>"
  using assms
  by (auto simp: reportable_def handle_msg_def Let_def seq_def Fatal_def split: if_splits)

lemma handle_msg_inspected:
  assumes "reportable msg" and "ContainerInspect e (ID (Actor msg)) = Inr r"
    and "exited (debug_dump e msg r) = None"
  shows "handle_msg e msg =
           \<lparr>effects = Inspect (ID (Actor msg)) # effects (debug_dump e msg r)
               @ effects (dispatch e (buildContainerEvent msg (index (Attributes (Actor msg)) ''exitCode'') r)),
            exited = exited (dispatch e (buildContainerEvent msg (index (Attributes (Actor msg)) ''exitCode'') r)),
            built = Some (buildContainerEvent msg (index (Attributes (Actor msg)) ''exitCode'') r)\<rparr>"
  using assms
  by (auto simp: reportable_def handle_msg_def Let_def seq_def built_debug_dump built_dispatch
      split: if_splits)

lemma handle_msg_dump_failed:
  assumes "reportable msg" and "ContainerInspect e (ID (Actor msg)) = Inr r"
    and "exited (debug_dump e msg r) = Some c"
  shows "handle_msg e msg =
           \<lparr>effects = Inspect (ID (Actor msg)) # effects (debug_dump e msg r),
            exited = Some c, built = None\<rparr>"
  using assms
  by (auto simp: reportable_def handle_msg_def Let_def seq_def built_debug_dump
      split: if_splits)

lemma sent_append: "sent (xs @ ys) = sent xs @ sent ys"
  by (induction xs rule: sent.induct) simp_all

lemma sent_debug_dump: "sent (effects (debug_dump e msg r)) = []"
  by (simp add: debug_dump_def Fatal_def split: sum.splits)

lemma reportable_action: "reportable msg \<Longrightarrow> Action msg = ''die'' \<or> Action msg = ''exec_die''"
  by (auto simp: reportable_def split: if_splits)

lemma buildContainerEvent_eq:
  assumes "Action msg = ''die'' \<or> Action msg = ''exec_die''"
  shows "buildContainerEvent msg exitCode r =
     \<lparr>Title = From msg
          @ (if Action msg = ''die'' then '' container exited non-zero: ''
             else '' container process exited non-zero: '')
          @ exitCode,
      Body = concat (map (\<lambda>line. line @ nl)
          [''Name: '' @ index (Attributes (Actor msg)) ''name'',
           ''ID: '' @ ID (Actor msg),
           ''Image: '' @ index (Attributes (Actor msg)) ''image'',
           ''Cmd: '' @ Join (Cmd (Config r)) '' '',
           ''Exit Code: '' @ exitCode]),
      ContainerID = ID (Actor msg),
      Tags = map render (Labels (Config r))\<rparr>"
proof -
  let ?ce = "buildContainerEvent msg exitCode r"
  have "?ce = \<lparr>Title = Title ?ce, Body = Body ?ce, ContainerID = ContainerID ?ce,
                Tags = Tags ?ce\<rparr>"
    by simp
  then show ?thesis
    using assms
    by (auto simp add: buildContainerEvent_Title buildContainerEvent_Body
        buildContainerEvent_Tags buildContainerEvent_ContainerID)
qed

lemma sent_handle_msg_cases:
  "sent (effects (handle_msg e msg)) = []
   \<or> (\<exists>r. reportable msg \<and> ContainerInspect e (ID (Actor msg)) = Inr r
          \<and> exited (debug_dump e msg r) = None \<and> output_flag e = ''datadog''
          \<and> sent (effects (handle_msg e msg)) =
              [newEvent (buildContainerEvent msg (index (Attributes (Actor msg)) ''exitCode'') r)])"
proof (cases "reportable msg")
  case False
  then show ?thesis by (simp add: handle_msg_not_reportable skip_def)
next
  case rep: True
  show ?thesis
  proof (cases "ContainerInspect e (ID (Actor msg))")
    case (Inl err)
    then show ?thesis by (simp add: handle_msg_inspect_failed [OF rep])
  next
    case (Inr r)
    show ?thesis
    proof (cases "exited (debug_dump e msg r)")
      case (Some c)
      then show ?thesis
        by (simp add: handle_msg_dump_failed [OF rep Inr] sent_debug_dump)
    next
      case None
      show ?thesis
      proof (cases "output_flag e = ''datadog''")
        case True
        then show ?thesis
          using rep Inr None
          by (simp add: handle_msg_inspected [OF rep Inr None] sent_append sent_debug_dump
              dispatch_def datadogEvent_def Let_def split: option.splits)
      next
        case False
        then show ?thesis
          by (simp add: handle_msg_inspected [OF rep Inr None] sent_append sent_debug_dump
              dispatch_def)
      qed
    qed
  qed
qed

lemma newEvent_eq:
  "newEvent ce = \<lparr>EventTitle = Title ce, EventText = Body ce, AggregationKey = ContainerID ce,
                  AlertType = ''error'', SourceTypeName = ''DOCKER'', EventTags = Tags ce\<rparr>"
  by (simp add: newEvent_def statsd_Error_def)

section \<open>The event filter\<close>

text \<open>
  C1 (as stated, refuted): an event of type container and action die whose attributes hold
  no exit code is reportable, although its exit-code attribute is not present.
\<close>

theorem filter_missing_exit_code_counterexample:
  "\<not> (reportable die_without_exit_code \<longleftrightarrow>
        Type die_without_exit_code = ''container''
        \<and> (Action die_without_exit_code = ''die'' \<or> Action die_without_exit_code = ''exec_die'')
        \<and> Attributes (Actor die_without_exit_code) ''exitCode'' \<noteq> None
        \<and> Attributes (Actor die_without_exit_code) ''exitCode'' \<noteq> Some ''0'')"
  by (simp add: die_without_exit_code_def reportable_def index_def)

text \<open>
  C1 (amended): an event is reportable if and only if its type is container, its action is
  die or exec_die, and its exit-code attribute, read as the empty string when it is
  missing, differs from the string 0. So no event of another type is reportable, a die
  event of a container with exit code 0 is not, and one with exit code 137 is.
\<close>

theorem filter_reportable_iff:
  "(reportable msg \<longleftrightarrow>
      Type msg = ''container'' \<and> (Action msg = ''die'' \<or> Action msg = ''exec_die'')
      \<and> index (Attributes (Actor msg)) ''exitCode'' \<noteq> ''0'')
   \<and> (Type msg \<noteq> ''container'' \<longrightarrow> \<not> reportable msg)
   \<and> (Type msg = ''container'' \<and> Action msg = ''die''
        \<and> Attributes (Actor msg) ''exitCode'' = Some ''0'' \<longrightarrow> \<not> reportable msg)
   \<and> (Type msg = ''container'' \<and> Action msg = ''die''
        \<and> Attributes (Actor msg) ''exitCode'' = Some ''137'' \<longrightarrow> reportable msg)"
  by (simp add: reportable_def index_def)

theorem filter_reportable_iff_witness:
  "reportable nginx_die
   \<and> \<not> reportable (nginx_die\<lparr>Actor := \<lparr>ID = ''abc123'', Attributes = [''exitCode'' \<mapsto> ''0'']\<rparr>\<rparr>)
   \<and> \<not> reportable (nginx_die\<lparr>Type := ''network''\<rparr>)"
  using
    filter_reportable_iff [of nginx_die]
    filter_reportable_iff [of "nginx_die\<lparr>Actor := \<lparr>ID = ''abc123'', Attributes = [''exitCode'' \<mapsto> ''0'']\<rparr>\<rparr>"]
    filter_reportable_iff [of "nginx_die\<lparr>Type := ''network''\<rparr>"]
  by (simp add: nginx_die_def index_def)

section \<open>The report formatter\<close>

text \<open>
  C2: for a reportable event and an inspection result, the formatter gives the
  \<^verbatim>\<open>ContainerEvent\<close> with the title "source container exited non-zero: code" for a die and
  "source container process exited non-zero: code" for an exec_die (source is the event's
  from field), with the body made of the five newline-terminated lines Name, ID, Image,
  Cmd (the command joined with single spaces) and Exit Code, in this order, and with one
  tag "key=value" for each label of the inspection result, in whatever order the labels are
  visited; it is the event that the loop builds when the inspection returned this result
  and the debugging dump did not end the process. For the nginx event this is the title
  "nginx container exited non-zero: 137", the five lines of web1 and the one tag "env=prod".
\<close>

theorem formatter_title_body_tags:
  assumes "reportable msg"
  shows "containerEvent_of msg r =
           \<lparr>Title = From msg
                    @ (if Action msg = ''die'' then '' container exited non-zero: ''
                       else '' container process exited non-zero: '')
                    @ index (Attributes (Actor msg)) ''exitCode'',
            Body = concat (map (\<lambda>line. line @ nl)
                    [''Name: '' @ index (Attributes (Actor msg)) ''name'',
                     ''ID: '' @ ID (Actor msg),
                     ''Image: '' @ index (Attributes (Actor msg)) ''image'',
                     ''Cmd: '' @ Join (Cmd (Config r)) '' '',
                     ''Exit Code: '' @ index (Attributes (Actor msg)) ''exitCode'']),
            ContainerID = ID (Actor msg),
            Tags = map render (Labels (Config r))\<rparr>
         \<and> (ContainerInspect e (ID (Actor msg)) = Inr r \<and> exited (debug_dump e msg r) = None
              \<longrightarrow> built (handle_msg e msg) = Some (containerEvent_of msg r))"
proof
  show "containerEvent_of msg r =
           \<lparr>Title = From msg
                    @ (if Action msg = ''die'' then '' container exited non-zero: ''
                       else '' container process exited non-zero: '')
                    @ index (Attributes (Actor msg)) ''exitCode'',
            Body = concat (map (\<lambda>line. line @ nl)
                    [''Name: '' @ index (Attributes (Actor msg)) ''name'',
                     ''ID: '' @ ID (Actor msg),
                     ''Image: '' @ index (Attributes (Actor msg)) ''image'',
                     ''Cmd: '' @ Join (Cmd (Config r)) '' '',
                     ''Exit Code: '' @ index (Attributes (Actor msg)) ''exitCode'']),
            ContainerID = ID (Actor msg),
            Tags = map render (Labels (Config r))\<rparr>"
    by (rule buildContainerEvent_eq [OF reportable_action [OF assms]])
  show "ContainerInspect e (ID (Actor msg)) = Inr r \<and> exited (debug_dump e msg r) = None
              \<longrightarrow> built (handle_msg e msg) = Some (containerEvent_of msg r)"
    by (simp add: handle_msg_inspected [OF assms])
qed

theorem formatter_title_body_tags_witness:
  "reportable nginx_die
   \<and> containerEvent_of nginx_die nginx_inspect =
       \<lparr>Title = ''nginx container exited non-zero: 137'',
        Body = ''Name: web1'' @ nl @ ''ID: abc123'' @ nl @ ''Image: nginx:latest'' @ nl
                    @ ''Cmd: nginx -g daemon off;'' @ nl @ ''Exit Code: 137'' @ nl,
        ContainerID = ''abc123'',
        Tags = [''env=prod'']\<rparr>
   \<and> ContainerInspect nginx_env (ID (Actor nginx_die)) = Inr nginx_inspect
   \<and> exited (debug_dump nginx_env nginx_die nginx_inspect) = None
   \<and> built (handle_msg nginx_env nginx_die) = Some (containerEvent_of nginx_die nginx_inspect)"
proof -
  have h1: "reportable nginx_die"
    by (simp add: reportable_def nginx_die_def index_def)
  have h2: "ContainerInspect nginx_env (ID (Actor nginx_die)) = Inr nginx_inspect"
    by (simp add: nginx_env_def nginx_die_def)
  have h3: "exited (debug_dump nginx_env nginx_die nginx_inspect) = None"
    by (simp add: debug_dump_def nginx_env_def)
  have v: "Action nginx_die = ''die''" "From nginx_die = ''nginx''"
    "ID (Actor nginx_die) = ''abc123''"
    "index (Attributes (Actor nginx_die)) ''exitCode'' = ''137''"
    "index (Attributes (Actor nginx_die)) ''name'' = ''web1''"
    "index (Attributes (Actor nginx_die)) ''image'' = ''nginx:latest''"
    "Join (Cmd (Config nginx_inspect)) '' '' = ''nginx -g daemon off;''"
    "map render (Labels (Config nginx_inspect)) = [''env=prod'']"
    by (simp_all add: nginx_die_def nginx_inspect_def index_def render_def)
  show ?thesis
    using h1 h2 h3 formatter_title_body_tags [OF h1, of nginx_inspect nginx_env]
    by (simp add: v)
qed

section \<open>The metrics sink\<close>

text \<open>
  C3: handling one event hands at most one event to the statsd client, and whatever is
  handed over has the container identifier as its aggregation key, the alert type "error"
  and the source type "DOCKER". A reportable event whose inspection and debugging dump
  succeeded, with the output set to datadog, hands over exactly one event: it carries
  the formatted title and body and the rendered labels as its tags.
\<close>

theorem metrics_sink_event:
  "length (sent (effects (handle_msg e msg))) \<le> 1
   \<and> (\<forall>ev \<in> set (sent (effects (handle_msg e msg))).
         AggregationKey ev = ID (Actor msg) \<and> AlertType ev = ''error''
         \<and> SourceTypeName ev = ''DOCKER'')
   \<and> (reportable msg \<and> output_flag e = ''datadog''
       \<and> ContainerInspect e (ID (Actor msg)) = Inr r
       \<and> exited (debug_dump e msg r) = None \<longrightarrow>
       sent (effects (handle_msg e msg)) =
         [\<lparr>EventTitle = From msg
              @ (if Action msg = ''die'' then '' container exited non-zero: ''
                 else '' container process exited non-zero: '')
              @ index (Attributes (Actor msg)) ''exitCode'',
           EventText = concat (map (\<lambda>line. line @ nl)
              [''Name: '' @ index (Attributes (Actor msg)) ''name'',
               ''ID: '' @ ID (Actor msg),
               ''Image: '' @ index (Attributes (Actor msg)) ''image'',
               ''Cmd: '' @ Join (Cmd (Config r)) '' '',
               ''Exit Code: '' @ index (Attributes (Actor msg)) ''exitCode'']),
           AggregationKey = ID (Actor msg),
           AlertType = ''error'',
           SourceTypeName = ''DOCKER'',
           EventTags = map render (Labels (Config r))\<rparr>])"
proof (intro conjI impI)
  show "length (sent (effects (handle_msg e msg))) \<le> 1"
    using sent_handle_msg_cases [of e msg] by auto
  show "\<forall>ev \<in> set (sent (effects (handle_msg e msg))).
         AggregationKey ev = ID (Actor msg) \<and> AlertType ev = ''error''
         \<and> SourceTypeName ev = ''DOCKER''"
    using sent_handle_msg_cases [of e msg]
    by (auto simp: newEvent_eq buildContainerEvent_ContainerID)
next
  assume h: "reportable msg \<and> output_flag e = ''datadog''
       \<and> ContainerInspect e (ID (Actor msg)) = Inr r
       \<and> exited (debug_dump e msg r) = None"
  then have rep: "reportable msg" and out: "output_flag e = ''datadog''"
    and ins: "ContainerInspect e (ID (Actor msg)) = Inr r"
    and dump: "exited (debug_dump e msg r) = None"
    by simp_all
  have "sent (effects (handle_msg e msg)) =
          [newEvent (buildContainerEvent msg (index (Attributes (Actor msg)) ''exitCode'') r)]"
    using out
    by (simp add: handle_msg_inspected [OF rep ins dump] sent_append sent_debug_dump
        dispatch_def datadogEvent_def Let_def split: option.splits)
  then show "sent (effects (handle_msg e msg)) =
         [\<lparr>EventTitle = From msg
              @ (if Action msg = ''die'' then '' container exited non-zero: ''
                 else '' container process exited non-zero: '')
              @ index (Attributes (Actor msg)) ''exitCode'',
           EventText = concat (map (\<lambda>line. line @ nl)
              [''Name: '' @ index (Attributes (Actor msg)) ''name'',
               ''ID: '' @ ID (Actor msg),
               ''Image: '' @ index (Attributes (Actor msg)) ''image'',
               ''Cmd: '' @ Join (Cmd (Config r)) '' '',
               ''Exit Code: '' @ index (Attributes (Actor msg)) ''exitCode'']),
           AggregationKey = ID (Actor msg),
           AlertType = ''error'',
           SourceTypeName = ''DOCKER'',
           EventTags = map render (Labels (Config r))\<rparr>]"
    using buildContainerEvent_eq [OF reportable_action [OF rep], of
        "index (Attributes (Actor msg)) ''exitCode''" r]
    by (simp add: newEvent_eq)
qed

theorem metrics_sink_event_witness:
  "reportable nginx_die \<and> output_flag nginx_env = ''datadog''
   \<and> ContainerInspect nginx_env (ID (Actor nginx_die)) = Inr nginx_inspect
   \<and> exited (debug_dump nginx_env nginx_die nginx_inspect) = None
   \<and> sent (effects (handle_msg nginx_env nginx_die)) =
       [\<lparr>EventTitle = ''nginx container exited non-zero: 137'',
         EventText = ''Name: web1'' @ nl @ ''ID: abc123'' @ nl @ ''Image: nginx:latest'' @ nl
                    @ ''Cmd: nginx -g daemon off;'' @ nl @ ''Exit Code: 137'' @ nl,
         AggregationKey = ''abc123'',
         AlertType = ''error'',
         SourceTypeName = ''DOCKER'',
         EventTags = [''env=prod'']\<rparr>]"
proof -
  have h1: "reportable nginx_die"
    by (simp add: reportable_def nginx_die_def index_def)
  have h2: "ContainerInspect nginx_env (ID (Actor nginx_die)) = Inr nginx_inspect"
    by (simp add: nginx_env_def nginx_die_def)
  have h3: "exited (debug_dump nginx_env nginx_die nginx_inspect) = None"
    by (simp add: debug_dump_def nginx_env_def)
  have h4: "output_flag nginx_env = ''datadog''"
    by (simp add: nginx_env_def)
  show ?thesis
    using h1 h2 h3 h4 metrics_sink_event [of nginx_env nginx_die nginx_inspect]
    by (simp add: nginx_die_def nginx_inspect_def index_def render_def)
qed

section \<open>Failure of the inspection\<close>

text \<open>
  C4: when the inspection of a reportable event fails, the run ends there with exit status
  1: its only effects are the one call of \<^verbatim>\<open>ContainerInspect\<close> and the line of
  \<^verbatim>\<open>log.Fatal\<close>. Nothing is handed to the statsd client, nothing is written to standard
  output, no \<^verbatim>\<open>ContainerEvent\<close> is built, and the values after the event are not received.
\<close>

theorem inspect_failure_is_fatal:
  assumes "reportable msg"
    and "ContainerInspect e (ID (Actor msg)) = Inl err"
  shows "watch e (MsgItem msg # rest) = ([Inspect (ID (Actor msg)), Log err], Some 1)
         \<and> sent (fst (watch e (MsgItem msg # rest))) = []
         \<and> printed (fst (watch e (MsgItem msg # rest))) = []
         \<and> built (handle_msg e msg) = None"
  by (simp add: step_def handle_msg_inspect_failed [OF assms])

theorem inspect_failure_is_fatal_witness:
  "reportable (nginx_die\<lparr>Actor := \<lparr>ID = ''gone'', Attributes = Map.empty\<rparr>\<rparr>)
   \<and> ContainerInspect nginx_env ''gone'' = Inl ''No such container''
   \<and> watch nginx_env [MsgItem (nginx_die\<lparr>Actor := \<lparr>ID = ''gone'', Attributes = Map.empty\<rparr>\<rparr>),
                       MsgItem nginx_die]
       = ([Inspect ''gone'', Log ''No such container''], Some 1)"
proof -
  have h1: "reportable (nginx_die\<lparr>Actor := \<lparr>ID = ''gone'', Attributes = Map.empty\<rparr>\<rparr>)"
    by (simp add: reportable_def nginx_die_def index_def)
  have h2: "ContainerInspect nginx_env
              (ID (Actor (nginx_die\<lparr>Actor := \<lparr>ID = ''gone'', Attributes = Map.empty\<rparr>\<rparr>)))
            = Inl ''No such container''"
    by (simp add: nginx_env_def)
  show ?thesis
    using h1 h2 inspect_failure_is_fatal [OF h1 h2, of "[MsgItem nginx_die]"]
    by simp
qed

section \<open>The error stream\<close>

text \<open>
  C5: every value received from the error stream is written out by \<^verbatim>\<open>fmt.Printf\<close> and the
  loop goes on: after any number of errors the loop handles the values that follow exactly
  as it would have handled them alone, and an error never sets an exit status.
\<close>

theorem error_stream_never_stops_loop:
  "watch e (map ErrItem errs @ rest) =
     (map (\<lambda>err. Stdout (printf_error e err)) errs @ fst (watch e rest), snd (watch e rest))
   \<and> exited (step e (ErrItem err)) = None"
proof
  show "watch e (map ErrItem errs @ rest) =
     (map (\<lambda>err. Stdout (printf_error e err)) errs @ fst (watch e rest), snd (watch e rest))"
    by (induction errs) (simp_all add: step_def handle_err_def)
  show "exited (step e (ErrItem err)) = None"
    by (simp add: step_def handle_err_def)
qed

theorem error_stream_never_stops_loop_witness:
  "watch nginx_env [ErrItem (Some ''EOF''), ErrItem None, MsgItem nginx_die] =
     (Stdout (''error: '' @ [CHR 0x22] @ ''EOF'' @ [CHR 0x22]) # Stdout ''error: %!q(<nil>)''
        # fst (watch nginx_env [MsgItem nginx_die]),
      snd (watch nginx_env [MsgItem nginx_die]))
   \<and> take 1 (fst (watch nginx_env [MsgItem nginx_die])) = [Inspect ''abc123'']"
proof -
  have h1: "reportable nginx_die"
    by (simp add: reportable_def nginx_die_def index_def)
  have h2: "ContainerInspect nginx_env (ID (Actor nginx_die)) = Inr nginx_inspect"
    by (simp add: nginx_env_def nginx_die_def)
  have h3: "exited (debug_dump nginx_env nginx_die nginx_inspect) = None"
    by (simp add: debug_dump_def nginx_env_def)
  have "take 1 (fst (watch nginx_env [MsgItem nginx_die])) = [Inspect ''abc123'']"
    by (simp add: step_def handle_msg_inspected [OF h1 h2 h3] Let_def split: option.splits)
      (simp add: nginx_die_def)
  then show ?thesis
    using error_stream_never_stops_loop [of nginx_env "[Some ''EOF'', None]" "[MsgItem nginx_die]"]
    by (simp add: printf_error_def nginx_env_def quote_ascii_def)
qed

section \<open>The order of inspection and formatting\<close>

text \<open>
  C6: an iteration that builds a \<^verbatim>\<open>ContainerEvent\<close>, and so a title and a body, has received
  a reportable event whose inspection succeeded; the event built is the one formatted from
  that inspection result, and the call of \<^verbatim>\<open>ContainerInspect\<close> is the first effect of the
  iteration.
\<close>

theorem title_body_only_after_inspect:
  assumes "built (step e it) = Some ce"
  shows "\<exists>msg r. it = MsgItem msg \<and> reportable msg
           \<and> ContainerInspect e (ID (Actor msg)) = Inr r
           \<and> ce = buildContainerEvent msg (index (Attributes (Actor msg)) ''exitCode'') r
           \<and> take 1 (effects (step e it)) = [Inspect (ID (Actor msg))]"
proof (cases it)
  case (ErrItem err)
  with assms show ?thesis by (simp add: step_def handle_err_def)
next
  case (MsgItem msg)
  with assms have b: "built (handle_msg e msg) = Some ce" by (simp add: step_def)
  have rep: "reportable msg"
  proof (rule ccontr)
    assume "\<not> reportable msg"
    then have "handle_msg e msg = skip" by (rule handle_msg_not_reportable)
    with b show False by (simp add: skip_def)
  qed
  show ?thesis
  proof (cases "ContainerInspect e (ID (Actor msg))")
    case (Inl err)
    with b rep show ?thesis by (simp add: handle_msg_inspect_failed)
  next
    case (Inr r)
    show ?thesis
    proof (cases "exited (debug_dump e msg r)")
      case (Some c)
      with b show ?thesis by (simp add: handle_msg_dump_failed [OF rep Inr])
    next
      case None
      with b rep Inr MsgItem show ?thesis
        by (simp add: step_def handle_msg_inspected [OF rep Inr None])
    qed
  qed
qed

theorem title_body_only_after_inspect_witness:
  "built (step nginx_env (MsgItem nginx_die)) =
     Some (buildContainerEvent nginx_die ''137'' nginx_inspect)
   \<and> (\<exists>msg r. MsgItem nginx_die = MsgItem msg \<and> reportable msg
           \<and> ContainerInspect nginx_env (ID (Actor msg)) = Inr r
           \<and> buildContainerEvent nginx_die ''137'' nginx_inspect
               = buildContainerEvent msg (index (Attributes (Actor msg)) ''exitCode'') r
           \<and> take 1 (effects (step nginx_env (MsgItem nginx_die))) = [Inspect (ID (Actor msg))])"
proof -
  have h1: "reportable nginx_die"
    by (simp add: reportable_def nginx_die_def index_def)
  have h2: "ContainerInspect nginx_env (ID (Actor nginx_die)) = Inr nginx_inspect"
    by (simp add: nginx_env_def nginx_die_def)
  have h3: "exited (debug_dump nginx_env nginx_die nginx_inspect) = None"
    by (simp add: debug_dump_def nginx_env_def)
  have x: "index (Attributes (Actor nginx_die)) ''exitCode'' = ''137''"
    by (simp add: nginx_die_def index_def)
  have h: "built (step nginx_env (MsgItem nginx_die)) =
     Some (buildContainerEvent nginx_die ''137'' nginx_inspect)"
    by (simp add: step_def handle_msg_inspected [OF h1 h2 h3] x)
  show ?thesis
    using h title_body_only_after_inspect [OF h] by simp
qed

section \<open>Failure of a sink\<close>

text \<open>
  C7: for a reportable event that reached the dispatch, an error of the statsd client ends
  the run with exit status 1 right after the failed send, and the values after the event
  are not received; with the console sink the iteration sets no exit status and the loop
  goes on with the values that follow.
\<close>

theorem sink_failure_policy:
  assumes "reportable msg"
    and "ContainerInspect e (ID (Actor msg)) = Inr r"
    and "exited (debug_dump e msg r) = None"
  shows "(output_flag e = ''datadog'' \<and> Event e (newEvent (containerEvent_of msg r)) = Some err
            \<longrightarrow> watch e (MsgItem msg # rest) =
                  (Inspect (ID (Actor msg)) # effects (debug_dump e msg r)
                     @ [Send (newEvent (containerEvent_of msg r)), Log err], Some 1))
       \<and> (output_flag e \<noteq> ''datadog''
            \<longrightarrow> exited (handle_msg e msg) = None
                \<and> watch e (MsgItem msg # rest) =
                    (Inspect (ID (Actor msg)) # effects (debug_dump e msg r)
                       @ Stdout (printf_q e (containerEvent_of msg r)) # fst (watch e rest),
                     snd (watch e rest)))"
  by (simp add: step_def handle_msg_inspected [OF assms] dispatch_def datadogEvent_def Let_def)

theorem sink_failure_policy_witness:
  "reportable nginx_die
   \<and> ContainerInspect (nginx_env\<lparr>Event := \<lambda>ev. Some ''write: connection refused''\<rparr>)
        (ID (Actor nginx_die)) = Inr nginx_inspect
   \<and> exited (debug_dump (nginx_env\<lparr>Event := \<lambda>ev. Some ''write: connection refused''\<rparr>)
        nginx_die nginx_inspect) = None
   \<and> snd (watch (nginx_env\<lparr>Event := \<lambda>ev. Some ''write: connection refused''\<rparr>)
        [MsgItem nginx_die, MsgItem nginx_die]) = Some 1
   \<and> sent (fst (watch (nginx_env\<lparr>Event := \<lambda>ev. Some ''write: connection refused''\<rparr>)
        [MsgItem nginx_die, MsgItem nginx_die])) = [newEvent (containerEvent_of nginx_die nginx_inspect)]
   \<and> exited (handle_msg (nginx_env\<lparr>output_flag := ''stdout''\<rparr>) nginx_die) = None"
proof -
  let ?e = "nginx_env\<lparr>Event := \<lambda>ev. Some ''write: connection refused''\<rparr>"
  let ?c = "nginx_env\<lparr>output_flag := ''stdout''\<rparr>"
  have h1: "reportable nginx_die"
    by (simp add: reportable_def nginx_die_def index_def)
  have h2: "ContainerInspect ?e (ID (Actor nginx_die)) = Inr nginx_inspect"
    by (simp add: nginx_env_def nginx_die_def)
  have h3: "exited (debug_dump ?e nginx_die nginx_inspect) = None"
    by (simp add: debug_dump_def nginx_env_def)
  have k2: "ContainerInspect ?c (ID (Actor nginx_die)) = Inr nginx_inspect"
    by (simp add: nginx_env_def nginx_die_def)
  have k3: "exited (debug_dump ?c nginx_die nginx_inspect) = None"
    by (simp add: debug_dump_def nginx_env_def)
  have d: "effects (debug_dump ?e nginx_die nginx_inspect) = []"
    by (simp add: debug_dump_def nginx_env_def)
  have o1: "output_flag ?e = ''datadog''" by (simp add: nginx_env_def)
  have o2: "output_flag ?c \<noteq> ''datadog''" by simp
  have ev: "Event ?e (newEvent (containerEvent_of nginx_die nginx_inspect))
              = Some ''write: connection refused''" by simp
  show ?thesis
    using h1 h2 h3 o1 o2 ev d
      sink_failure_policy [OF h1 h2 h3, of "''write: connection refused''" "[MsgItem nginx_die]"]
      sink_failure_policy [OF h1 k2 k3, of "''x''" "[]"]
    by simp
qed

section \<open>The debugging dump\<close>

text \<open>
  C8 (the code at the failing input): with \<^verbatim>\<open>DEBUG\<close> set to 1 the dump is the same as with
  \<^verbatim>\<open>DEBUG\<close> set to pretty: both values are marshalled by \<^verbatim>\<open>json.MarshalIndent\<close> with an
  indentation of two spaces, whereas the usage text of the program keeps the indented
  format for the value pretty.
\<close>

theorem debug_dump_ignores_pretty:
  "debug_dump (e\<lparr>DEBUG := ''1''\<rparr>) msg r = debug_dump (e\<lparr>DEBUG := ''pretty''\<rparr>) msg r
   \<and> effects (debug_dump (e\<lparr>DEBUG := ''1''\<rparr>) msg r) =
       (case MarshalIndent e (JInspect r) [] ''  '' of
          Inl err \<Rightarrow> [Log err]
        | Inr inspectJSON \<Rightarrow>
            (case MarshalIndent e (JMessage msg) [] ''  '' of
               Inl err \<Rightarrow> [Log err]
             | Inr msgJSON \<Rightarrow> [Stdout (nl @ inspectJSON @ nl @ msgJSON @ nl)]))"
  by (simp add: debug_dump_def Fatal_def split: sum.splits)

section \<open>A missing exit code\<close>

text \<open>
  C9: a container event with action die or exec_die whose attributes have no exit code is
  reportable, and the \<^verbatim>\<open>ContainerEvent\<close> built for it has the empty string as its exit code:
  the title ends after "exited non-zero: " and the last line of the body is "Exit Code: ".
\<close>

theorem missing_exit_code_is_reported:
  assumes "Type msg = ''container''"
    and "Action msg = ''die'' \<or> Action msg = ''exec_die''"
    and "Attributes (Actor msg) ''exitCode'' = None"
  shows "reportable msg
     \<and> containerEvent_of msg r =
         \<lparr>Title = From msg
                  @ (if Action msg = ''die'' then '' container exited non-zero: ''
                     else '' container process exited non-zero: ''),
          Body = concat (map (\<lambda>line. line @ nl)
                  [''Name: '' @ index (Attributes (Actor msg)) ''name'',
                   ''ID: '' @ ID (Actor msg),
                   ''Image: '' @ index (Attributes (Actor msg)) ''image'',
                   ''Cmd: '' @ Join (Cmd (Config r)) '' '',
                   ''Exit Code: '']),
          ContainerID = ID (Actor msg),
          Tags = map render (Labels (Config r))\<rparr>
     \<and> (ContainerInspect e (ID (Actor msg)) = Inr r \<and> exited (debug_dump e msg r) = None
          \<longrightarrow> built (handle_msg e msg) = Some (containerEvent_of msg r))"
proof -
  have x: "index (Attributes (Actor msg)) ''exitCode'' = []"
    using assms(3) by (simp add: index_def)
  have rep: "reportable msg"
    using assms(1,2) x by (auto simp: reportable_def)
  have "containerEvent_of msg r =
         \<lparr>Title = From msg
                  @ (if Action msg = ''die'' then '' container exited non-zero: ''
                     else '' container process exited non-zero: ''),
          Body = concat (map (\<lambda>line. line @ nl)
                  [''Name: '' @ index (Attributes (Actor msg)) ''name'',
                   ''ID: '' @ ID (Actor msg),
                   ''Image: '' @ index (Attributes (Actor msg)) ''image'',
                   ''Cmd: '' @ Join (Cmd (Config r)) '' '',
                   ''Exit Code: '']),
          ContainerID = ID (Actor msg),
          Tags = map render (Labels (Config r))\<rparr>"
    using buildContainerEvent_eq [OF assms(2), of "[]" r] by (simp add: x)
  moreover have "ContainerInspect e (ID (Actor msg)) = Inr r \<and> exited (debug_dump e msg r) = None
          \<longrightarrow> built (handle_msg e msg) = Some (containerEvent_of msg r)"
    by (simp add: handle_msg_inspected [OF rep])
  ultimately show ?thesis using rep by blast
qed

theorem missing_exit_code_is_reported_witness:
  "Type die_without_exit_code = ''container''
   \<and> (Action die_without_exit_code = ''die'' \<or> Action die_without_exit_code = ''exec_die'')
   \<and> Attributes (Actor die_without_exit_code) ''exitCode'' = None
   \<and> ContainerInspect nginx_env (ID (Actor die_without_exit_code)) = Inr nginx_inspect
   \<and> exited (debug_dump nginx_env die_without_exit_code nginx_inspect) = None
   \<and> reportable die_without_exit_code
   \<and> built (handle_msg nginx_env die_without_exit_code) =
       Some \<lparr>Title = ''nginx container exited non-zero: '',
             Body = ''Name: '' @ nl @ ''ID: abc123'' @ nl @ ''Image: '' @ nl
                    @ ''Cmd: nginx -g daemon off;'' @ nl @ ''Exit Code: '' @ nl,
             ContainerID = ''abc123'',
             Tags = [''env=prod'']\<rparr>"
proof -
  have h1: "Type die_without_exit_code = ''container''"
    by (simp add: die_without_exit_code_def)
  have h2: "Action die_without_exit_code = ''die'' \<or> Action die_without_exit_code = ''exec_die''"
    by (simp add: die_without_exit_code_def)
  have h3: "Attributes (Actor die_without_exit_code) ''exitCode'' = None"
    by (simp add: die_without_exit_code_def)
  have h4: "ContainerInspect nginx_env (ID (Actor die_without_exit_code)) = Inr nginx_inspect"
    by (simp add: nginx_env_def die_without_exit_code_def)
  have h5: "exited (debug_dump nginx_env die_without_exit_code nginx_inspect) = None"
    by (simp add: debug_dump_def nginx_env_def)
  have v: "Action die_without_exit_code = ''die''" "From die_without_exit_code = ''nginx''"
    "ID (Actor die_without_exit_code) = ''abc123''"
    "index (Attributes (Actor die_without_exit_code)) ''name'' = []"
    "index (Attributes (Actor die_without_exit_code)) ''image'' = []"
    "Join (Cmd (Config nginx_inspect)) '' '' = ''nginx -g daemon off;''"
    "map render (Labels (Config nginx_inspect)) = [''env=prod'']"
    by (simp_all add: die_without_exit_code_def nginx_inspect_def index_def render_def)
  show ?thesis
    using h1 h2 h3 h4 h5
      missing_exit_code_is_reported [OF h1 h2 h3, of nginx_inspect nginx_env]
    by (simp add: v)
qed

section \<open>The choice of the sink\<close>

text \<open>
  C10: the sink depends on the equality of \<^verbatim>\<open>output\<close> with "datadog" only. With that value
  the event goes to \<^verbatim>\<open>datadogEvent\<close>; with any other value, the empty string and a
  misspelling included, the \<^verbatim>\<open>ContainerEvent\<close> is printed with \<^verbatim>\<open>%q\<close> between two newlines
  (its quoted fields between braces, the quoted tags between brackets), no exit status
  is set and nothing is handed to the statsd client. What is printed is not the body.
\<close>

theorem sink_selection_by_equality:
  "(output_flag e = ''datadog'' \<longrightarrow> dispatch e ce = datadogEvent e ce)
   \<and> (output_flag e \<noteq> ''datadog'' \<longrightarrow>
        dispatch e ce =
          \<lparr>effects = [Stdout (nl @ ''{'' @ Quote e (Title ce) @ '' '' @ Quote e (Body ce) @ '' ''
                        @ Quote e (ContainerID ce)
                        @ '' ['' @ Join (map (Quote e) (Tags ce)) '' '' @ '']}'' @ nl)],
           exited = None, built = None\<rparr>)
   \<and> (output_flag e \<noteq> ''datadog'' \<and> reportable msg
        \<and> ContainerInspect e (ID (Actor msg)) = Inr r
        \<and> exited (debug_dump e msg r) = None \<longrightarrow>
        effects (handle_msg e msg) =
          Inspect (ID (Actor msg)) # effects (debug_dump e msg r)
            @ [Stdout (printf_q e (containerEvent_of msg r))]
        \<and> exited (handle_msg e msg) = None
        \<and> sent (effects (handle_msg e msg)) = []
        \<and> printf_q e (containerEvent_of msg r) \<noteq> Body (containerEvent_of msg r))"
proof (intro conjI impI)
  show "output_flag e = ''datadog'' \<Longrightarrow> dispatch e ce = datadogEvent e ce"
    by (simp add: dispatch_def)
  show "output_flag e \<noteq> ''datadog'' \<Longrightarrow>
        dispatch e ce =
          \<lparr>effects = [Stdout (nl @ ''{'' @ Quote e (Title ce) @ '' '' @ Quote e (Body ce) @ '' ''
                        @ Quote e (ContainerID ce)
                        @ '' ['' @ Join (map (Quote e) (Tags ce)) '' '' @ '']}'' @ nl)],
           exited = None, built = None\<rparr>"
    by (simp add: dispatch_def printf_q_def)
next
  assume h: "output_flag e \<noteq> ''datadog'' \<and> reportable msg
        \<and> ContainerInspect e (ID (Actor msg)) = Inr r
        \<and> exited (debug_dump e msg r) = None"
  then have out: "output_flag e \<noteq> ''datadog''" and rep: "reportable msg"
    and ins: "ContainerInspect e (ID (Actor msg)) = Inr r"
    and dump: "exited (debug_dump e msg r) = None"
    by simp_all
  note hm = handle_msg_inspected [OF rep ins dump]
  show "effects (handle_msg e msg) =
          Inspect (ID (Actor msg)) # effects (debug_dump e msg r)
            @ [Stdout (printf_q e (containerEvent_of msg r))]"
    using out by (simp add: hm dispatch_def)
  show "exited (handle_msg e msg) = None"
    using out by (simp add: hm dispatch_def)
  show "sent (effects (handle_msg e msg)) = []"
    using out by (simp add: hm dispatch_def sent_append sent_debug_dump)
  show "printf_q e (containerEvent_of msg r) \<noteq> Body (containerEvent_of msg r)"
    by (simp add: printf_q_def buildContainerEvent_Body nl_def)
qed

theorem sink_selection_by_equality_witness:
  "output_flag (nginx_env\<lparr>output_flag := ''datadgo''\<rparr>) \<noteq> ''datadog''
   \<and> output_flag (nginx_env\<lparr>output_flag := []\<rparr>) \<noteq> ''datadog''
   \<and> reportable nginx_die
   \<and> ContainerInspect (nginx_env\<lparr>output_flag := ''datadgo''\<rparr>) (ID (Actor nginx_die))
        = Inr nginx_inspect
   \<and> exited (debug_dump (nginx_env\<lparr>output_flag := ''datadgo''\<rparr>) nginx_die nginx_inspect) = None
   \<and> effects (dispatch (nginx_env\<lparr>output_flag := []\<rparr>) (containerEvent_of nginx_die nginx_inspect))
       = effects (dispatch (nginx_env\<lparr>output_flag := ''datadgo''\<rparr>)
                   (containerEvent_of nginx_die nginx_inspect))
   \<and> effects (handle_msg (nginx_env\<lparr>output_flag := ''datadgo''\<rparr>) nginx_die) =
       [Inspect ''abc123'',
        Stdout (nl @ ''{'' @ [CHR 0x22] @ ''nginx container exited non-zero: 137'' @ [CHR 0x22]
           @ '' '' @ [CHR 0x22] @ ''Name: web1'' @ [CHR 0x5C] @ ''nID: abc123'' @ [CHR 0x5C]
           @ ''nImage: nginx:latest'' @ [CHR 0x5C] @ ''nCmd: nginx -g daemon off;'' @ [CHR 0x5C]
           @ ''nExit Code: 137'' @ [CHR 0x5C] @ ''n'' @ [CHR 0x22]
           @ '' '' @ [CHR 0x22] @ ''abc123'' @ [CHR 0x22]
           @ '' ['' @ [CHR 0x22] @ ''env=prod'' @ [CHR 0x22] @ '']}'' @ nl)]"
proof -
  let ?e = "nginx_env\<lparr>output_flag := ''datadgo''\<rparr>"
  let ?z = "nginx_env\<lparr>output_flag := []\<rparr>"
  let ?ce = "containerEvent_of nginx_die nginx_inspect"
  have h1: "reportable nginx_die"
    by (simp add: reportable_def nginx_die_def index_def)
  have h2: "ContainerInspect ?e (ID (Actor nginx_die)) = Inr nginx_inspect"
    by (simp add: nginx_env_def nginx_die_def)
  have h3: "exited (debug_dump ?e nginx_die nginx_inspect) = None"
    by (simp add: debug_dump_def nginx_env_def)
  have d: "effects (debug_dump ?e nginx_die nginx_inspect) = []"
    by (simp add: debug_dump_def nginx_env_def)
  have q: "Quote ?e = quote_ascii" "Quote ?z = quote_ascii"
    by (simp_all add: nginx_env_def)
  have ce: "?ce = \<lparr>Title = ''nginx container exited non-zero: 137'',
             Body = ''Name: web1'' @ nl @ ''ID: abc123'' @ nl @ ''Image: nginx:latest'' @ nl
                    @ ''Cmd: nginx -g daemon off;'' @ nl @ ''Exit Code: 137'' @ nl,
             ContainerID = ''abc123'',
             Tags = [''env=prod'']\<rparr>"
    by (simp add: buildContainerEvent_eq nginx_die_def nginx_inspect_def index_def render_def)
  have p: "printf_q ?e ?ce = nl @ ''{'' @ [CHR 0x22] @ ''nginx container exited non-zero: 137'' @ [CHR 0x22]
           @ '' '' @ [CHR 0x22] @ ''Name: web1'' @ [CHR 0x5C] @ ''nID: abc123'' @ [CHR 0x5C]
           @ ''nImage: nginx:latest'' @ [CHR 0x5C] @ ''nCmd: nginx -g daemon off;'' @ [CHR 0x5C]
           @ ''nExit Code: 137'' @ [CHR 0x5C] @ ''n'' @ [CHR 0x22]
           @ '' '' @ [CHR 0x22] @ ''abc123'' @ [CHR 0x22]
           @ '' ['' @ [CHR 0x22] @ ''env=prod'' @ [CHR 0x22] @ '']}'' @ nl"
    unfolding ce by (simp add: printf_q_def q quote_ascii_def nl_def)
  have i: "ID (Actor nginx_die) = ''abc123''"
    by (simp add: nginx_die_def)
  have o: "output_flag ?e \<noteq> ''datadog''" "output_flag ?z \<noteq> ''datadog''"
    by simp_all
  have "effects (dispatch ?z ?ce) = effects (dispatch ?e ?ce)"
    using o sink_selection_by_equality [of ?e ?ce nginx_die nginx_inspect]
      sink_selection_by_equality [of ?z ?ce nginx_die nginx_inspect]
    by (simp add: q)
  moreover have "effects (handle_msg ?e nginx_die) = [Inspect ''abc123'', Stdout (printf_q ?e ?ce)]"
    using o h1 h2 h3 sink_selection_by_equality [of ?e ?ce nginx_die nginx_inspect]
    by (simp add: d i)
  ultimately show ?thesis
    using h1 h2 h3 o by (simp only: p simp_thms)
qed

end
